theory Spec2Isabelle
  imports Complex_Main
begin

section \<open>Data model of the invoice generator\<close>

text \<open>
  The generator of \<^verbatim>\<open>invoice.py\<close> works on two pandas tables. A table cell is one of
  the scalar kinds a CSV column holds after \<^verbatim>\<open>pd.read_csv\<close>: a string, an integer, a
  float, the null value, or (after \<^verbatim>\<open>pd.to_datetime\<close>) a timestamp, which is kept
  by its printed form. A float is modelled by the rational number it stands for and
  arithmetic on it is exact: binary rounding error is outside this development.
\<close>

datatype cell = PStr string | PInt int | PFloat rat | PTimestamp string | PNaN

text \<open>
  The exceptions of the source. The last two carry the message of the operating system
  and of the CSV reader.
\<close>

datatype error =
  FileNotFoundError | TypeError | ValueError | IndexError | OSError string | ParserError string

text \<open>
  A table has its column names and its rows, each row holding one cell per column, in
  column order. Column names are taken to be distinct, as \<^verbatim>\<open>pd.read_csv\<close> delivers them.
\<close>

record dataframe =
  columns :: "string list"
  rows :: "cell list list"

text \<open>\<^verbatim>\<open>pd.DataFrame()\<close>: no columns, no rows.\<close>

definition empty_df :: dataframe where
  "empty_df = \<lparr>columns = [], rows = []\<rparr>"

text \<open>
  A Python dictionary from field names to cells: what \<^verbatim>\<open>to_dict()\<close> makes of one row
  of a table.
\<close>

type_synonym pydict = "string \<rightharpoonup> cell"

definition to_dict :: "string list \<Rightarrow> cell list \<Rightarrow> pydict" where
  "to_dict cols r = map_of (zip cols r)"

text \<open>
  The cell of a row under a column name. The source reads a column only after checking
  that the name is one of the table's columns; a row too short to have the cell holds the
  null value there, as a pandas table built from ragged records does.
\<close>

definition cell_at :: "string list \<Rightarrow> cell list \<Rightarrow> string \<Rightarrow> cell" where
  "cell_at cols r c = (case to_dict cols r c of Some v \<Rightarrow> v | None \<Rightarrow> PNaN)"

text \<open>\<^verbatim>\<open>df[col]\<close>: the cells of one column, in row order.\<close>

definition column :: "dataframe \<Rightarrow> string \<Rightarrow> cell list" where
  "column df c = map (\<lambda>r. cell_at (columns df) r c) (rows df)"

text \<open>\<^verbatim>\<open>df[mask]\<close>: the rows selected by a predicate, in their order, under the same columns.\<close>

definition select_rows :: "(cell list \<Rightarrow> bool) \<Rightarrow> dataframe \<Rightarrow> dataframe" where
  "select_rows p df = \<lparr>columns = columns df, rows = filter p (rows df)\<rparr>"

text \<open>\<^verbatim>\<open>df.to_dict('records')\<close>: one dictionary per row.\<close>

definition to_records :: "dataframe \<Rightarrow> pydict list" where
  "to_records df = map (to_dict (columns df)) (rows df)"

text \<open>\<^verbatim>\<open>pd.notna\<close> on a scalar.\<close>

fun notna :: "cell \<Rightarrow> bool" where
  "notna PNaN = False"
| "notna _ = True"

section \<open>The library around the generator\<close>

text \<open>
  What the source takes from Python and pandas and this development does not define:
  the printed form of a float, the text of a timestamp under a format specification, the
  message of an exception, the date parser (\<open>None\<close> when it raises), the files
  \<^verbatim>\<open>pd.read_csv\<close> can see, each with what the reader makes of it, and the two readings
  of the clock in \<^verbatim>\<open>generate_invoice\<close>.
\<close>

record pyenv =
  float_str :: "rat \<Rightarrow> string"
  timestamp_format :: "string \<Rightarrow> string \<Rightarrow> string"
  error_str :: "error \<Rightarrow> string"
  to_datetime :: "cell list \<Rightarrow> cell list option"
  csv_files :: "string \<rightharpoonup> (error + dataframe)"
  now_compact :: string
  now_iso :: string

text \<open>Decimal digits of a natural number and of an integer: \<^verbatim>\<open>str(n)\<close>.\<close>

definition digit_char :: "nat \<Rightarrow> char" where
  "digit_char n = ''0123456789'' ! (n mod 10)"

fun str_nat :: "nat \<Rightarrow> string" where
  "str_nat n = (if n < 10 then [digit_char n] else str_nat (n div 10) @ [digit_char n])"

declare str_nat.simps [simp del]

definition str_int :: "int \<Rightarrow> string" where
  "str_int i = (if i < 0 then CHR ''-'' # str_nat (nat (- i)) else str_nat (nat i))"

text \<open>\<^verbatim>\<open>str(x)\<close> of a cell, which is also what \<^verbatim>\<open>astype(str)\<close> makes of it.\<close>

fun py_str :: "pyenv \<Rightarrow> cell \<Rightarrow> string" where
  "py_str E (PStr s) = s"
| "py_str E (PInt i) = str_int i"
| "py_str E (PFloat q) = float_str E q"
| "py_str E (PTimestamp s) = s"
| "py_str E PNaN = ''nan''"

text \<open>
  \<^verbatim>\<open>x == y\<close> on two cells: numbers compare by value, strings by content, a string never
  equals a number, and the null value equals nothing, itself included. Timestamps are
  compared with timestamps only; the loaders never put one in a column of identifiers.
\<close>

fun py_eq :: "cell \<Rightarrow> cell \<Rightarrow> bool" where
  "py_eq (PStr a) (PStr b) = (a = b)"
| "py_eq (PInt a) (PInt b) = (a = b)"
| "py_eq (PInt a) (PFloat q) = (of_int a = q)"
| "py_eq (PFloat p) (PInt b) = (p = of_int b)"
| "py_eq (PFloat p) (PFloat q) = (p = q)"
| "py_eq (PTimestamp a) (PTimestamp b) = (a = b)"
| "py_eq _ _ = False"

section \<open>Column resolution\<close>

text \<open>
  The loop
  \<^verbatim>\<open>for col in id_columns: if col in df.columns: client_id_col = col; break\<close>
  of \<^verbatim>\<open>get_client_data\<close>, \<^verbatim>\<open>get_client_works\<close> and \<^verbatim>\<open>calculate_invoice_totals\<close>:
  the first candidate, in list order, that is a column of the table.
\<close>

fun find_column :: "string list \<Rightarrow> string list \<Rightarrow> string option" where
  "find_column [] cols = None"
| "find_column (c # cs) cols = (if c \<in> set cols then Some c else find_column cs cols)"

text \<open>
  The loop
  \<^verbatim>\<open>for col in name_columns: if col in client and pd.notna(client[col]): ...; break\<close>
  of the renderers: the first candidate, in list order, that is a key of the dictionary
  with a value that is not null. \<open>None\<close> stands for the loop ending without a hit,
  where the source keeps its default.
\<close>

fun resolve :: "pydict \<Rightarrow> string list \<Rightarrow> cell option" where
  "resolve d [] = None"
| "resolve d (c # cs) =
     (case d c of
        Some v \<Rightarrow> if notna v then Some v else resolve d cs
      | None \<Rightarrow> resolve d cs)"

section \<open>Loading the tables\<close>

text \<open>\<^verbatim>\<open>s.strip()\<close> and \<^verbatim>\<open>s.lower()\<close>, on ASCII.\<close>

definition is_space :: "char \<Rightarrow> bool" where
  "is_space c = (c \<in> set [CHR '' '', CHR 0x09, CHR 0x0A, CHR 0x0B, CHR 0x0C, CHR 0x0D])"

definition strip :: "string \<Rightarrow> string" where
  "strip s = rev (dropWhile is_space (rev (dropWhile is_space s)))"

definition lower_char :: "char \<Rightarrow> char" where
  "lower_char c =
     (case map_of (zip ''ABCDEFGHIJKLMNOPQRSTUVWXYZ'' ''abcdefghijklmnopqrstuvwxyz'') c of
        Some l \<Rightarrow> l
      | None \<Rightarrow> c)"

definition lower :: "string \<Rightarrow> string" where
  "lower s = map lower_char s"

text \<open>\<^verbatim>\<open>sub in s\<close> on strings: \<open>sub\<close> occurs in \<open>s\<close> as a contiguous run.\<close>

fun starts_with :: "string \<Rightarrow> string \<Rightarrow> bool" where
  "starts_with [] s = True"
| "starts_with (p # ps) [] = False"
| "starts_with (p # ps) (c # cs) = (p = c \<and> starts_with ps cs)"

fun substring_of :: "string \<Rightarrow> string \<Rightarrow> bool" where
  "substring_of sub [] = (sub = [])"
| "substring_of sub (c # cs) = (starts_with sub (c # cs) \<or> substring_of sub cs)"

text \<open>\<^verbatim>\<open>pd.read_csv(path)\<close>: a path that names no file raises \<^verbatim>\<open>FileNotFoundError\<close>.\<close>

definition read_csv :: "pyenv \<Rightarrow> string \<Rightarrow> error + dataframe" where
  "read_csv E path = (case csv_files E path of None \<Rightarrow> Inl FileNotFoundError | Some r \<Rightarrow> r)"

text \<open>\<^verbatim>\<open>df[col] = values\<close>: the cells of the column are replaced, row by row.\<close>

fun index_of :: "string \<Rightarrow> string list \<Rightarrow> nat" where
  "index_of c [] = 0"
| "index_of c (x # xs) = (if x = c then 0 else Suc (index_of c xs))"

definition set_column :: "dataframe \<Rightarrow> string \<Rightarrow> cell list \<Rightarrow> dataframe" where
  "set_column df c vs =
     df\<lparr>rows := map (\<lambda>(r, v). r[index_of c (columns df) := v]) (zip (rows df) vs)\<rparr>"

text \<open>
  \<^verbatim>\<open>load_clients_data\<close> and \<^verbatim>\<open>load_works_data\<close>, which read only the path from the
  generator under construction. Both handlers of the source, the one for
  \<^verbatim>\<open>FileNotFoundError\<close> and the one for every other \<^verbatim>\<open>Exception\<close>, return the empty
  table. The diagnostics the source prints on the way are not part of the model.
\<close>

definition load_clients_data :: "pyenv \<Rightarrow> string \<Rightarrow> dataframe" where
  "load_clients_data E path =
     (case read_csv E path of
        Inl e \<Rightarrow> empty_df
      | Inr df \<Rightarrow> df\<lparr>columns := map strip (columns df)\<rparr>)"

text \<open>
  In \<^verbatim>\<open>load_works_data\<close> the guard \<^verbatim>\<open>'date' in df.columns.str.lower()\<close> asks whether
  \<^verbatim>\<open>'date'\<close> is an element of the index of lower-cased names, and the column then picked
  is the first whose lower-cased name has \<^verbatim>\<open>'date'\<close> as a substring. An empty pick
  would raise \<^verbatim>\<open>IndexError\<close>, and a failing parse raises too; both are caught by the
  second handler.
\<close>

definition load_works_data :: "pyenv \<Rightarrow> string \<Rightarrow> dataframe" where
  "load_works_data E path =
     (case read_csv E path of
        Inl e \<Rightarrow> empty_df
      | Inr df0 \<Rightarrow>
         (let df = df0\<lparr>columns := map strip (columns df0)\<rparr>
          in if ''date'' \<in> set (map lower (columns df))
             then (case filter (\<lambda>col. substring_of ''date'' (lower col)) (columns df) of
                     [] \<Rightarrow> empty_df
                   | date_col # _ \<Rightarrow>
                      (case to_datetime E (column df date_col) of
                         None \<Rightarrow> empty_df
                       | Some vs \<Rightarrow> set_column df date_col vs))
             else df))"

record InvoiceGenerator =
  clients_csv_path :: string
  works_csv_path :: string
  tax_rate :: rat
  clients_df :: dataframe
  works_df :: dataframe

text \<open>\<^verbatim>\<open>InvoiceGenerator.__init__\<close>.\<close>

definition init :: "pyenv \<Rightarrow> string \<Rightarrow> string \<Rightarrow> rat \<Rightarrow> InvoiceGenerator" where
  "init E cpath wpath rate =
     \<lparr>clients_csv_path = cpath, works_csv_path = wpath, tax_rate = rate,
      clients_df = load_clients_data E cpath, works_df = load_works_data E wpath\<rparr>"

section \<open>Looking up a client and its work items\<close>

text \<open>
  The source names both candidate lists \<^verbatim>\<open>id_columns\<close>; they differ. The lookups, the
  totals and the assembly print diagnostics on their way, which are not part of the model.
\<close>

definition client_id_columns :: "string list" where
  "client_id_columns = [''id'', ''client_id'', ''ID'', ''Client_ID'', ''id_number'', ''ID_Number'']"

definition works_id_columns :: "string list" where
  "works_id_columns = [''client_id'', ''Client_ID'', ''id'', ''ID'', ''client'', ''Client'']"

text \<open>
  \<^verbatim>\<open>get_client_data\<close>: the rows whose identifier, as a string, is the string of the
  queried id; the first of them as a dictionary, \<open>None\<close> when there is none or the table
  has no identifier column.
\<close>

definition get_client_data :: "pyenv \<Rightarrow> InvoiceGenerator \<Rightarrow> cell \<Rightarrow> pydict option" where
  "get_client_data E self client_id =
     (case find_column client_id_columns (columns (clients_df self)) of
        None \<Rightarrow> None
      | Some client_id_col \<Rightarrow>
         (let client_id_str = py_str E client_id;
              client_row =
                select_rows
                  (\<lambda>r. py_str E (cell_at (columns (clients_df self)) r client_id_col) = client_id_str)
                  (clients_df self)
          in case rows client_row of
               [] \<Rightarrow> None
             | r # _ \<Rightarrow> Some (to_dict (columns client_row) r)))"

text \<open>
  \<^verbatim>\<open>get_client_works\<close>: the rows whose client reference equals the queried id under
  \<^verbatim>\<open>==\<close>, with no conversion; the empty table when there is no reference column.
\<close>

definition get_client_works :: "InvoiceGenerator \<Rightarrow> cell \<Rightarrow> dataframe" where
  "get_client_works self client_id =
     (case find_column works_id_columns (columns (works_df self)) of
        None \<Rightarrow> empty_df
      | Some client_id_col \<Rightarrow>
         select_rows
           (\<lambda>r. py_eq (cell_at (columns (works_df self)) r client_id_col) client_id)
           (works_df self))"

section \<open>Totals\<close>

text \<open>
  \<^verbatim>\<open>round(x, 2)\<close> rounds to the nearest multiple of \<open>1/100\<close>, a tie going to the even
  neighbour.
\<close>

definition round_half_even :: "rat \<Rightarrow> int" where
  "round_half_even y =
     (let f = \<lfloor>y\<rfloor>; d = y - of_int f
      in if d < 1 / 2 then f
         else if 1 / 2 < d then f + 1
         else if even f then f else f + 1)"

definition py_round :: "nat \<Rightarrow> rat \<Rightarrow> rat" where
  "py_round nd x = of_int (round_half_even (x * 10 ^ nd)) / 10 ^ nd"

text \<open>
  \<^verbatim>\<open>works_df[amount_col].sum()\<close>. Null cells are skipped by the sum. A column that holds
  strings sums to their concatenation, and a column of timestamps does not sum; in both
  cases the source leaves \<^verbatim>\<open>calculate_invoice_totals\<close> with a \<^verbatim>\<open>TypeError\<close>, at the
  sum or at the multiplication by the tax rate that follows it.
\<close>

fun column_sum :: "cell list \<Rightarrow> error + rat" where
  "column_sum [] = Inr 0"
| "column_sum (PNaN # xs) = column_sum xs"
| "column_sum (PInt n # xs) =
     (case column_sum xs of Inl e \<Rightarrow> Inl e | Inr s \<Rightarrow> Inr (of_int n + s))"
| "column_sum (PFloat q # xs) =
     (case column_sum xs of Inl e \<Rightarrow> Inl e | Inr s \<Rightarrow> Inr (q + s))"
| "column_sum (PStr s # xs) = Inl TypeError"
| "column_sum (PTimestamp s # xs) = Inl TypeError"

record totals =
  subtotal :: rat
  tax :: rat
  total :: rat

definition amount_columns :: "string list" where
  "amount_columns =
     [''amount'', ''import'', ''price'', ''cost'', ''value'', ''total'',
      ''Amount'', ''Import'', ''Price'']"

definition calculate_invoice_totals :: "InvoiceGenerator \<Rightarrow> dataframe \<Rightarrow> error + totals" where
  "calculate_invoice_totals self wdf =
     (case find_column amount_columns (columns wdf) of
        None \<Rightarrow> Inr \<lparr>subtotal = 0, tax = 0, total = 0\<rparr>
      | Some amount_col \<Rightarrow>
         (case column_sum (column wdf amount_col) of
            Inl e \<Rightarrow> Inl e
          | Inr s \<Rightarrow>
             (let tax_amount = s * tax_rate self;
                  tot = s + tax_amount
              in Inr \<lparr>subtotal = py_round 2 s,
                      tax = py_round 2 tax_amount,
                      total = py_round 2 tot\<rparr>)))"

section \<open>Assembling the invoice\<close>

text \<open>
  The invoice dictionary of \<^verbatim>\<open>generate_invoice\<close>. Its keys \<^verbatim>\<open>subtotal\<close> and
  \<^verbatim>\<open>tax_rate\<close> are \<open>inv_subtotal\<close> and \<open>inv_tax_rate\<close> here, the plain names being
  taken by the totals and by the generator.
\<close>

record invoice =
  invoice_number :: string
  invoice_date :: string
  client_data :: pydict
  works :: "pydict list"
  inv_subtotal :: rat
  inv_tax_rate :: rat
  tax_amount :: rat
  total_amount :: rat

text \<open>
  \<^verbatim>\<open>generate_invoice\<close>. \<open>Inr None\<close> is the source returning \<^verbatim>\<open>None\<close>, \<open>Inl e\<close> is an
  exception leaving the function: the source has no handler around the totals.
\<close>

definition generate_invoice ::
  "pyenv \<Rightarrow> InvoiceGenerator \<Rightarrow> cell \<Rightarrow> string option \<Rightarrow> string option \<Rightarrow> error + invoice option"
where
  "generate_invoice E self client_id number date =
     (case get_client_data E self client_id of
        None \<Rightarrow> Inr None
      | Some cd \<Rightarrow>
         (let client_works = get_client_works self client_id
          in case calculate_invoice_totals self client_works of
               Inl e \<Rightarrow> Inl e
             | Inr ts \<Rightarrow>
                (let num = (case number of
                              None \<Rightarrow> ''INV-'' @ now_compact E @ ''-'' @ py_str E client_id
                            | Some n \<Rightarrow> n);
                     dat = (case date of None \<Rightarrow> now_iso E | Some d \<Rightarrow> d)
                 in Inr (Some \<lparr>invoice_number = num,
                               invoice_date = dat,
                               client_data = cd,
                               works = to_records client_works,
                               inv_subtotal = subtotal ts,
                               inv_tax_rate = tax_rate self * 100,
                               tax_amount = tax ts,
                               total_amount = total ts\<rparr>))))"

section \<open>Rendering\<close>

text \<open>
  Format specifications. \<^verbatim>\<open>{s:<n}\<close> pads on the right and \<^verbatim>\<open>{s:>n}\<close> on the left, to
  the width and never cutting; \<^verbatim>\<open>.{nd}f\<close> prints a number with \<open>nd\<close> decimals. Lengths
  count characters, which for ASCII text are the bytes of a \<^typ>\<open>string\<close>.
\<close>

definition ljust :: "nat \<Rightarrow> string \<Rightarrow> string" where
  "ljust n s = s @ replicate (n - length s) CHR '' ''"

definition rjust :: "nat \<Rightarrow> string \<Rightarrow> string" where
  "rjust n s = replicate (n - length s) CHR '' '' @ s"

definition zfill :: "nat \<Rightarrow> string \<Rightarrow> string" where
  "zfill n s = replicate (n - length s) CHR ''0'' @ s"

definition fmt_fixed :: "nat \<Rightarrow> rat \<Rightarrow> string" where
  "fmt_fixed nd x =
     (let r = nat (round_half_even (\<bar>x\<bar> * 10 ^ nd));
          sign = (if x < 0 then ''-'' else '''')
      in sign @ str_nat (r div 10 ^ nd)
         @ (if nd = 0 then '''' else ''.'' @ zfill nd (str_nat (r mod 10 ^ nd))))"

text \<open>
  \<^verbatim>\<open>format(x, spec)\<close> for a cell and an \<^verbatim>\<open>f\<close> specification, given by its padding, its
  text and its number of decimals. A string has no \<^verbatim>\<open>f\<close> format: \<^verbatim>\<open>ValueError\<close>.
\<close>

fun format_cell :: "pyenv \<Rightarrow> (string \<Rightarrow> string) \<Rightarrow> string \<Rightarrow> nat \<Rightarrow> cell \<Rightarrow> error + string" where
  "format_cell E pad spec nd (PInt i) = Inr (pad (fmt_fixed nd (of_int i)))"
| "format_cell E pad spec nd (PFloat q) = Inr (pad (fmt_fixed nd q))"
| "format_cell E pad spec nd PNaN = Inr (pad ''nan'')"
| "format_cell E pad spec nd (PStr s) = Inl ValueError"
| "format_cell E pad spec nd (PTimestamp t) = Inr (timestamp_format E t spec)"

definition name_columns :: "string list" where
  "name_columns =
     [''name'', ''company_name'', ''client_name'', ''Name'', ''Company_Name'', ''Client_Name'']"

definition address_columns :: "string list" where
  "address_columns = [''address'', ''Address'', ''street'', ''Street'']"

definition zip_columns :: "string list" where
  "zip_columns = [''zip_code'', ''zip'', ''postal_code'', ''Zip_Code'', ''ZIP'', ''Postal_Code'']"

definition desc_columns :: "string list" where
  "desc_columns =
     [''description'', ''concept'', ''service'', ''Description'', ''Concept'', ''Service'']"

definition date_columns :: "string list" where
  "date_columns = [''date'', ''Date'', ''work_date'', ''Work_Date'']"

text \<open>
  The world the renderers act on: the lines printed so far, the files written, and for
  each path the exception that opening it for writing raises, if any.
\<close>

datatype style = title_style | header_style | normal_style | client_style

datatype flowable = Paragraph string style | Spacer nat nat | Table "string list list"

datatype out_file = TextFile "string list" | PdfFile "flowable list"

record world =
  stdout :: "string list"
  files :: "string \<rightharpoonup> out_file"
  open_error :: "string \<Rightarrow> error option"

definition print :: "string list \<Rightarrow> world \<Rightarrow> world" where
  "print ls w = w\<lparr>stdout := stdout w @ ls\<rparr>"

text \<open>The lines \<^verbatim>\<open>print_invoice\<close> prints under \<^verbatim>\<open>BILL TO:\<close>.\<close>

definition client_lines :: "pyenv \<Rightarrow> pydict \<Rightarrow> string list" where
  "client_lines E client =
     [''  '' @ (case resolve client name_columns of
                  None \<Rightarrow> ''Unknown Client''
                | Some v \<Rightarrow> py_str E v)]
     @ (case resolve client address_columns of None \<Rightarrow> [] | Some v \<Rightarrow> [''  '' @ py_str E v])
     @ (case resolve client zip_columns of None \<Rightarrow> [] | Some v \<Rightarrow> [''  '' @ py_str E v])"

text \<open>The body of the loop over \<^verbatim>\<open>invoice['works']\<close> in \<^verbatim>\<open>print_invoice\<close>.\<close>

definition work_line :: "pyenv \<Rightarrow> pydict \<Rightarrow> error + string" where
  "work_line E work =
     (let description = (case resolve work desc_columns of
                           None \<Rightarrow> ''Service''
                         | Some v \<Rightarrow> take 28 (py_str E v));
          work_date = (case resolve work date_columns of
                         None \<Rightarrow> ''N/A''
                       | Some v \<Rightarrow> (case v of
                                      PStr s \<Rightarrow> take 10 s
                                    | _ \<Rightarrow> take 10 (py_str E v)));
          amount = (case resolve work amount_columns of None \<Rightarrow> PInt 0 | Some v \<Rightarrow> v)
      in case format_cell E (ljust 9) ''<9.2f'' 2 amount of
           Inl e \<Rightarrow> Inl e
         | Inr a \<Rightarrow> Inr (ljust 30 description @ '' '' @ ljust 12 work_date @ '' $'' @ a))"

text \<open>The loop: the lines printed, and the exception that ended it, if one did.\<close>

fun work_lines :: "pyenv \<Rightarrow> pydict list \<Rightarrow> string list \<times> error option" where
  "work_lines E [] = ([], None)"
| "work_lines E (work # ws) =
     (case work_line E work of
        Inl e \<Rightarrow> ([], Some e)
      | Inr l \<Rightarrow> (case work_lines E ws of (ls, r) \<Rightarrow> (l # ls, r)))"

text \<open>
  Every line \<^verbatim>\<open>print_invoice\<close> prints for an invoice, in order, and the exception that
  cut the printing short, if one did.
\<close>

definition invoice_text :: "pyenv \<Rightarrow> invoice \<Rightarrow> string list \<times> error option" where
  "invoice_text E ivc =
     (let head =
            [replicate 60 CHR ''='',
             ''INVOICE #'' @ invoice_number ivc,
             replicate 60 CHR ''='',
             ''Date: '' @ invoice_date ivc,
             '''',
             ''BILL TO:'']
            @ client_lines E (client_data ivc)
            @ ['''',
               ''SERVICES:'',
               replicate 60 CHR ''-'',
               ljust 30 ''Description'' @ '' '' @ ljust 12 ''Date'' @ '' '' @ ljust 10 ''Amount'',
               replicate 60 CHR ''-''];
          foot =
            [replicate 60 CHR ''-'',
             ljust 54 ''Subtotal:'' @ '' $'' @ rjust 8 (fmt_fixed 2 (inv_subtotal ivc)),
             ljust 54 (''Tax ('' @ float_str E (inv_tax_rate ivc) @ ''%):'')
               @ '' $'' @ rjust 8 (fmt_fixed 2 (tax_amount ivc)),
             replicate 60 CHR ''='',
             ljust 54 ''TOTAL:'' @ '' $'' @ rjust 8 (fmt_fixed 2 (total_amount ivc)),
             replicate 60 CHR ''='']
      in case work_lines E (works ivc) of
           (body, Some e) \<Rightarrow> (head @ body, Some e)
         | (body, None) \<Rightarrow> (head @ body @ foot, None))"

text \<open>\<^verbatim>\<open>print_invoice\<close>: the world after it, and the exception it left with, if any.\<close>

definition print_invoice ::
  "pyenv \<Rightarrow> InvoiceGenerator \<Rightarrow> invoice option \<Rightarrow> world \<Rightarrow> world \<times> error option"
where
  "print_invoice E self invoice w =
     (case invoice of
        None \<Rightarrow> (print [''No invoice to print''] w, None)
      | Some ivc \<Rightarrow> (case invoice_text E ivc of (ls, r) \<Rightarrow> (print ls w, r)))"

text \<open>
  \<^verbatim>\<open>save_invoice_to_file\<close>. Opening the file empties it; \<^verbatim>\<open>print_invoice\<close> then runs with
  the file in place of the console, and what it printed before an exception stays in the
  file. Every exception is caught and reported on the console.
\<close>

definition save_invoice_to_file ::
  "pyenv \<Rightarrow> InvoiceGenerator \<Rightarrow> invoice option \<Rightarrow> string option \<Rightarrow> world \<Rightarrow> world"
where
  "save_invoice_to_file E self invoice filename w =
     (case invoice of
        None \<Rightarrow> print [''No invoice to save''] w
      | Some ivc \<Rightarrow>
         (let fname = (case filename of
                         None \<Rightarrow> ''invoice_'' @ invoice_number ivc @ ''.txt''
                       | Some f \<Rightarrow> f)
          in case open_error w fname of
               Some e \<Rightarrow> print [''Error saving invoice: '' @ error_str E e] w
             | None \<Rightarrow>
                (case print_invoice E self invoice (w\<lparr>stdout := []\<rparr>) of
                   (w_file, r) \<Rightarrow>
                     (let w' = w\<lparr>files := (files w)(fname \<mapsto> TextFile (stdout w_file))\<rparr>
                      in case r of
                           None \<Rightarrow> print [''Invoice saved to '' @ fname] w'
                         | Some e \<Rightarrow> print [''Error saving invoice: '' @ error_str E e] w'))))"

text \<open>One row of the table of the PDF, and the rows for all work items.\<close>

definition pdf_work_row :: "pyenv \<Rightarrow> pydict \<Rightarrow> error + string list" where
  "pdf_work_row E work =
     (let description = (case resolve work desc_columns of
                           None \<Rightarrow> ''Service''
                         | Some v \<Rightarrow> py_str E v);
          work_date = (case resolve work date_columns of
                         None \<Rightarrow> ''N/A''
                       | Some v \<Rightarrow> take 10 (py_str E v));
          amount = (case resolve work amount_columns of None \<Rightarrow> PInt 0 | Some v \<Rightarrow> v)
      in case format_cell E (\<lambda>s. s) ''.2f'' 2 amount of
           Inl e \<Rightarrow> Inl e
         | Inr a \<Rightarrow> Inr [description, work_date, ''$'' @ a])"

fun pdf_work_rows :: "pyenv \<Rightarrow> pydict list \<Rightarrow> error + string list list" where
  "pdf_work_rows E [] = Inr []"
| "pdf_work_rows E (work # ws) =
     (case pdf_work_row E work of
        Inl e \<Rightarrow> Inl e
      | Inr r \<Rightarrow> (case pdf_work_rows E ws of Inl e \<Rightarrow> Inl e | Inr rs \<Rightarrow> Inr (r # rs)))"

text \<open>
  The story handed to \<^verbatim>\<open>doc.build\<close>. The table style and the paragraph styles'
  attributes decide the look only and are left out.
\<close>

definition pdf_story :: "pyenv \<Rightarrow> invoice \<Rightarrow> error + flowable list" where
  "pdf_story E ivc =
     (let client = client_data ivc;
          top =
            [Paragraph ''INVOICE'' title_style,
             Spacer 1 20,
             Paragraph (''<b>Invoice #:</b> '' @ invoice_number ivc) normal_style,
             Paragraph (''<b>Date:</b> '' @ invoice_date ivc) normal_style,
             Spacer 1 20,
             Paragraph ''BILL TO:'' header_style,
             Paragraph (case resolve client name_columns of
                          None \<Rightarrow> ''Unknown Client''
                        | Some v \<Rightarrow> py_str E v) client_style]
            @ (case resolve client address_columns of
                 None \<Rightarrow> []
               | Some v \<Rightarrow> [Paragraph (py_str E v) normal_style])
            @ (case resolve client zip_columns of
                 None \<Rightarrow> []
               | Some v \<Rightarrow> [Paragraph (py_str E v) normal_style])
            @ [Spacer 1 30,
               Paragraph ''SERVICES:'' header_style,
               Spacer 1 10]
      in case pdf_work_rows E (works ivc) of
           Inl e \<Rightarrow> Inl e
         | Inr body \<Rightarrow>
            Inr (top
                 @ [Table ([[''Description'', ''Date'', ''Amount'']]
                           @ body
                           @ [['''', '''', ''''],
                              [''Subtotal:'', '''', ''$'' @ fmt_fixed 2 (inv_subtotal ivc)],
                              [''Tax ('' @ fmt_fixed 1 (inv_tax_rate ivc) @ ''%):'', '''',
                               ''$'' @ fmt_fixed 2 (tax_amount ivc)],
                              [''TOTAL:'', '''', ''$'' @ fmt_fixed 2 (total_amount ivc)]]),
                    Spacer 1 30,
                    Paragraph ''Thank you for your business!'' normal_style,
                    Paragraph ''For questions about this invoice, please contact us.''
                      normal_style]))"

text \<open>
  \<^verbatim>\<open>save_invoice_to_pdf\<close>. The file is written by \<^verbatim>\<open>doc.build\<close>, the last step; an
  exception before it, or at it, is caught and reported, and the layout itself is taken
  to succeed.
\<close>

definition save_invoice_to_pdf ::
  "pyenv \<Rightarrow> InvoiceGenerator \<Rightarrow> invoice option \<Rightarrow> string option \<Rightarrow> world \<Rightarrow> world"
where
  "save_invoice_to_pdf E self invoice filename w =
     (case invoice of
        None \<Rightarrow> print [''No invoice to save''] w
      | Some ivc \<Rightarrow>
         (let fname = (case filename of
                         None \<Rightarrow> ''invoice_'' @ invoice_number ivc @ ''.pdf''
                       | Some f \<Rightarrow> f)
          in case pdf_story E ivc of
               Inl e \<Rightarrow> print [''Error saving invoice to PDF: '' @ error_str E e] w
             | Inr story \<Rightarrow>
                (case open_error w fname of
                   Some e \<Rightarrow> print [''Error saving invoice to PDF: '' @ error_str E e] w
                 | None \<Rightarrow>
                    print [''Invoice PDF saved to '' @ fname]
                      (w\<lparr>files := (files w)(fname \<mapsto> PdfFile story)\<rparr>))))"

section \<open>Notions used to state the properties\<close>

text \<open>A candidate name is present in a dictionary when it is a key with a value that is not null.\<close>

definition present :: "pydict \<Rightarrow> string \<Rightarrow> bool" where
  "present d c = (case d c of Some v \<Rightarrow> notna v | None \<Rightarrow> False)"



section \<open>Worked inputs\<close>

text \<open>
  A library and four files for the worked examples. The identifiers of the clients file
  are strings, since two of them are not numbers, and so are the client references of
  \<^verbatim>\<open>works.csv\<close>; the other two files refer to client 1 by number. The amount of
  \<^verbatim>\<open>priced.csv\<close> is written with a thousands separator, which \<^verbatim>\<open>pd.read_csv\<close> keeps
  as a string. The date parser turns every string into a timestamp. No example prints a
  float through \<open>float_str\<close>, whose stand-in is right on whole numbers only.
\<close>

definition demo_env :: pyenv where
  "demo_env =
     \<lparr>float_str = fmt_fixed 1,
      timestamp_format = (\<lambda>t spec. spec),
      error_str = (\<lambda>e. case e of OSError m \<Rightarrow> m | ParserError m \<Rightarrow> m | _ \<Rightarrow> ''error''),
      to_datetime = (\<lambda>vs. Some (map (\<lambda>v. case v of PStr s \<Rightarrow> PTimestamp s | _ \<Rightarrow> v) vs)),
      csv_files =
        [''clients.csv'' \<mapsto>
           Inr \<lparr>columns = [''id'', ''name''],
                rows = [[PStr ''1'', PStr ''Acme''], [PStr ''A2'', PStr ''Bolt''],
                        [PStr ''B3'', PStr ''Cord'']]\<rparr>,
         ''works.csv'' \<mapsto>
           Inr \<lparr>columns = [''client_id'', ''work_date'', ''amount''],
                rows = [[PStr ''1'', PStr ''2024-01-15'', PFloat 100],
                        [PStr ''1'', PStr ''2024-01-20'', PFloat 50],
                        [PStr ''A2'', PStr ''2024-01-18'', PFloat (3014 / 1000)]]\<rparr>,
         ''dated.csv'' \<mapsto>
           Inr \<lparr>columns = [''client_id'', ''date'', ''amount''],
                rows = [[PInt 1, PStr ''2024-01-15'', PFloat 100]]\<rparr>,
         ''priced.csv'' \<mapsto>
           Inr \<lparr>columns = [''client_id'', ''amount''],
                rows = [[PInt 1, PStr ''1,500.00'']]\<rparr>],
      now_compact = ''20240131'',
      now_iso = ''2024-01-31''\<rparr>"

definition demo_generator :: InvoiceGenerator where
  "demo_generator = init demo_env ''clients.csv'' ''works.csv'' (21 / 100)"

section \<open>Evaluating the worked inputs\<close>

lemma floor_numeral_div [simp]:
  "\<lfloor>(numeral a :: rat) / numeral b\<rfloor> = numeral a div numeral b"
  using floor_divide_of_int_eq [of "numeral a" "numeral b", where ?'a = rat] by simp

lemma strip_plain: "strip ''client_id'' = ''client_id''" "strip ''work_date'' = ''work_date''"
  "strip ''amount'' = ''amount''" "strip ''id'' = ''id''" "strip ''name'' = ''name''" "strip ''date'' = ''date''"
  by (simp_all add: strip_def is_space_def)

lemma lower_plain: "lower ''client_id'' = ''client_id''" "lower ''work_date'' = ''work_date''"
  "lower ''amount'' = ''amount''" "lower ''date'' = ''date''"
  by (simp_all add: lower_def lower_char_def)

lemma demo_clients_df:
  "clients_df demo_generator =
     \<lparr>columns = [''id'', ''name''],
      rows = [[PStr ''1'', PStr ''Acme''], [PStr ''A2'', PStr ''Bolt''], [PStr ''B3'', PStr ''Cord'']]\<rparr>"
  by (simp add: demo_generator_def init_def load_clients_data_def read_csv_def demo_env_def strip_plain)

lemma demo_works_df:
  "works_df demo_generator =
     \<lparr>columns = [''client_id'', ''work_date'', ''amount''],
      rows = [[PStr ''1'', PStr ''2024-01-15'', PFloat 100],
              [PStr ''1'', PStr ''2024-01-20'', PFloat 50],
              [PStr ''A2'', PStr ''2024-01-18'', PFloat (3014 / 1000)]]\<rparr>"
  by (simp add: demo_generator_def init_def load_works_data_def read_csv_def demo_env_def strip_plain lower_plain Let_def)


lemma str_int_1: "str_int 1 = ''1''"
  by (simp add: str_int_def str_nat.simps digit_char_def)

section \<open>Column resolution respects the order of the candidates\<close>

lemma find_column_filter:
  "find_column cs cols = (case filter (\<lambda>c. c \<in> set cols) cs of [] \<Rightarrow> None | c # _ \<Rightarrow> Some c)"
  by (induction cs) simp_all

lemma find_column_None_iff: "find_column cs cols = None \<longleftrightarrow> set cs \<inter> set cols = {}"
  by (induction cs) auto

lemma resolve_filter:
  "resolve d cs = (case filter (present d) cs of [] \<Rightarrow> None | c # _ \<Rightarrow> d c)"
  by (induction cs) (auto simp: present_def split: option.splits)

text \<open>
  Claim C8. The value resolved from a dictionary and an ordered candidate list is the
  value of the first candidate, in list order, that is a key with a value that is not
  null, and nothing when there is no such candidate; the column resolved from a table is
  the first candidate that is one of its columns. In particular, in a dictionary that
  holds both \<^verbatim>\<open>Amount\<close> and \<^verbatim>\<open>amount\<close>, the one that comes first in the candidate
  list gives the result, which under the source's own amount candidates is \<^verbatim>\<open>amount\<close>.
\<close>

theorem resolve_order_respecting:
  "resolve d cs = (case filter (present d) cs of [] \<Rightarrow> None | c # _ \<Rightarrow> d c)
   \<and> find_column cs cols = (case filter (\<lambda>c. c \<in> set cols) cs of [] \<Rightarrow> None | c # _ \<Rightarrow> Some c)
   \<and> resolve (d(''Amount'' \<mapsto> PFloat x, ''amount'' \<mapsto> PFloat y)) [''Amount'', ''amount'']
       = Some (PFloat x)
   \<and> resolve (d(''Amount'' \<mapsto> PFloat x, ''amount'' \<mapsto> PFloat y)) [''amount'', ''Amount'']
       = Some (PFloat y)
   \<and> resolve (d(''Amount'' \<mapsto> PFloat x, ''amount'' \<mapsto> PFloat y)) amount_columns
       = Some (PFloat y)"
proof -
  have "resolve (d(''Amount'' \<mapsto> PFloat x, ''amount'' \<mapsto> PFloat y)) amount_columns
       = Some (PFloat y)"
    by (simp add: amount_columns_def)
  then show ?thesis
    using resolve_filter [of d cs] find_column_filter [of cs cols] by simp
qed

section \<open>Totals\<close>

lemma round_half_even_0 [simp]: "round_half_even 0 = 0"
  by (simp add: round_half_even_def)

lemma py_round_0 [simp]: "py_round nd 0 = 0"
  by (simp add: py_round_def)



lemma totals_of_no_rows:
  "rows wdf = [] \<Longrightarrow> calculate_invoice_totals self wdf = Inr \<lparr>subtotal = 0, tax = 0, total = 0\<rparr>"
  by (simp add: calculate_invoice_totals_def column_def split: option.splits)




text \<open>
  Claim C5. When none of the amount candidates is a column of the table, the totals are
  all zero and nothing is raised. The amount column is resolved from the columns of the
  table alone: two tables with the same columns that agree on the resolved column have
  the same totals, whatever their rows hold under the other candidates.
\<close>

theorem totals_without_amount_column:
  "(set amount_columns \<inter> set (columns wdf) = {} \<longrightarrow>
      calculate_invoice_totals self wdf = Inr \<lparr>subtotal = 0, tax = 0, total = 0\<rparr>)
   \<and> (\<forall>c w2. find_column amount_columns (columns wdf) = Some c
              \<and> columns w2 = columns wdf \<and> column w2 c = column wdf c \<longrightarrow>
         calculate_invoice_totals self w2 = calculate_invoice_totals self wdf)"
proof (intro conjI impI allI)
  assume "set amount_columns \<inter> set (columns wdf) = {}"
  then have "find_column amount_columns (columns wdf) = None"
    by (simp add: find_column_None_iff)
  then show "calculate_invoice_totals self wdf = Inr \<lparr>subtotal = 0, tax = 0, total = 0\<rparr>"
    by (simp add: calculate_invoice_totals_def)
next
  fix c w2
  assume "find_column amount_columns (columns wdf) = Some c
              \<and> columns w2 = columns wdf \<and> column w2 c = column wdf c"
  then show "calculate_invoice_totals self w2 = calculate_invoice_totals self wdf"
    by (simp add: calculate_invoice_totals_def)
qed

text \<open>
  The theorem on a table with no amount column, and on two tables whose rows have no
  \<^verbatim>\<open>amount\<close> but different values under \<^verbatim>\<open>Amount\<close>.
\<close>

theorem totals_without_amount_column_witness:
  "set amount_columns \<inter> set (columns \<lparr>columns = [''client_id'', ''hours''], rows = [[PInt 7, PFloat 3]]\<rparr>) = {}
   \<and> calculate_invoice_totals demo_generator
        \<lparr>columns = [''client_id'', ''hours''], rows = [[PInt 7, PFloat 3]]\<rparr>
       = Inr \<lparr>subtotal = 0, tax = 0, total = 0\<rparr>
   \<and> find_column amount_columns
        (columns \<lparr>columns = [''client_id'', ''amount'', ''Amount''], rows = [[PInt 7, PNaN, PFloat 5]]\<rparr>)
       = Some ''amount''
   \<and> calculate_invoice_totals demo_generator
        \<lparr>columns = [''client_id'', ''amount'', ''Amount''], rows = [[PInt 7, PNaN, PFloat 9]]\<rparr>
       = calculate_invoice_totals demo_generator
           \<lparr>columns = [''client_id'', ''amount'', ''Amount''], rows = [[PInt 7, PNaN, PFloat 5]]\<rparr>
   \<and> calculate_invoice_totals demo_generator
        \<lparr>columns = [''client_id'', ''amount'', ''Amount''], rows = [[PInt 7, PNaN, PFloat 5]]\<rparr>
       = Inr \<lparr>subtotal = 0, tax = 0, total = 0\<rparr>"
proof -
  let ?W0 = "\<lparr>columns = [''client_id'', ''hours''], rows = [[PInt 7, PFloat 3]]\<rparr>"
  let ?W1 = "\<lparr>columns = [''client_id'', ''amount'', ''Amount''], rows = [[PInt 7, PNaN, PFloat 5]]\<rparr>"
  let ?W2 = "\<lparr>columns = [''client_id'', ''amount'', ''Amount''], rows = [[PInt 7, PNaN, PFloat 9]]\<rparr>"
  have h0: "set amount_columns \<inter> set (columns ?W0) = {}"
    by (simp add: amount_columns_def)
  have h1: "find_column amount_columns (columns ?W1) = Some ''amount''"
    by (simp add: amount_columns_def)
  have h2: "columns ?W2 = columns ?W1 \<and> column ?W2 ''amount'' = column ?W1 ''amount''"
    by (simp add: column_def cell_at_def to_dict_def)
  have v: "calculate_invoice_totals demo_generator ?W1 = Inr \<lparr>subtotal = 0, tax = 0, total = 0\<rparr>"
    by (simp add: calculate_invoice_totals_def amount_columns_def column_def cell_at_def to_dict_def)
  from totals_without_amount_column [of ?W0 demo_generator] h0
  have a: "calculate_invoice_totals demo_generator ?W0 = Inr \<lparr>subtotal = 0, tax = 0, total = 0\<rparr>"
    by blast
  from totals_without_amount_column [of ?W1 demo_generator] h1 h2
  have b: "calculate_invoice_totals demo_generator ?W2 = calculate_invoice_totals demo_generator ?W1"
    by blast
  show ?thesis using h0 h1 a b v by simp
qed




section \<open>Generating an invoice\<close>

lemma get_client_data_find:
  "find_column client_id_columns (columns (clients_df self)) = Some c \<Longrightarrow>
   get_client_data E self cid =
     map_option (to_dict (columns (clients_df self)))
       (List.find (\<lambda>r. py_str E (cell_at (columns (clients_df self)) r c) = py_str E cid)
          (rows (clients_df self)))"
proof -
  have f: "\<And>P xs. (case filter P xs of [] \<Rightarrow> None | r # _ \<Rightarrow> Some (g r)) = map_option g (List.find P xs)" for g :: "cell list \<Rightarrow> pydict"
  proof -
    fix P and xs :: "cell list list"
    show "(case filter P xs of [] \<Rightarrow> None | r # _ \<Rightarrow> Some (g r)) = map_option g (List.find P xs)"
      by (induction xs) simp_all
  qed
  assume "find_column client_id_columns (columns (clients_df self)) = Some c"
  then show ?thesis
    by (simp add: get_client_data_def select_rows_def Let_def f)
qed

lemma get_client_data_empty: "clients_df self = empty_df \<Longrightarrow> get_client_data E self cid = None"
  by (simp add: get_client_data_def empty_df_def client_id_columns_def)

lemma get_client_works_empty: "works_df self = empty_df \<Longrightarrow> get_client_works self cid = empty_df"
  by (simp add: get_client_works_def empty_df_def works_id_columns_def)

text \<open>
  Claim C4. For a client that is in the client table and has no matching work item,
  \<^verbatim>\<open>generate_invoice\<close> returns an invoice of that client with no line items and
  subtotal, tax and total all zero.
\<close>

theorem invoice_without_works:
  assumes "get_client_data E self cid = Some cd"
    and "rows (get_client_works self cid) = []"
  shows "\<exists>ivc. generate_invoice E self cid number date = Inr (Some ivc)
           \<and> client_data ivc = cd \<and> works ivc = []
           \<and> inv_subtotal ivc = 0 \<and> tax_amount ivc = 0 \<and> total_amount ivc = 0"
  using assms
  by (simp add: generate_invoice_def totals_of_no_rows to_records_def Let_def)

text \<open>The theorem on client \<^verbatim>\<open>B3\<close> of the worked files, who has no work item.\<close>

theorem invoice_without_works_witness:
  "get_client_data demo_env demo_generator (PStr ''B3'')
     = Some (to_dict [''id'', ''name''] [PStr ''B3'', PStr ''Cord''])
   \<and> rows (get_client_works demo_generator (PStr ''B3'')) = []
   \<and> (\<exists>ivc. generate_invoice demo_env demo_generator (PStr ''B3'') None None = Inr (Some ivc)
           \<and> client_data ivc = to_dict [''id'', ''name''] [PStr ''B3'', PStr ''Cord'']
           \<and> works ivc = []
           \<and> inv_subtotal ivc = 0 \<and> tax_amount ivc = 0 \<and> total_amount ivc = 0)"
proof -
  have h1: "get_client_data demo_env demo_generator (PStr ''B3'')
     = Some (to_dict [''id'', ''name''] [PStr ''B3'', PStr ''Cord''])"
    by (simp add: get_client_data_def demo_clients_df client_id_columns_def select_rows_def
        cell_at_def to_dict_def Let_def)
  have h2: "rows (get_client_works demo_generator (PStr ''B3'')) = []"
    by (simp add: get_client_works_def demo_works_df works_id_columns_def select_rows_def
        cell_at_def to_dict_def)
  show ?thesis
    using h1 h2 invoice_without_works [OF h1 h2, of None None] by simp
qed




text \<open>
  Claim C3. \<^verbatim>\<open>get_client_data\<close> takes the first row whose identifier has the same
  string as the queried id, so that the integer \<open>n\<close> finds the identifier written with
  the digits of \<open>n\<close>; \<^verbatim>\<open>get_client_works\<close> keeps the rows whose client reference
  equals the id under \<^verbatim>\<open>==\<close>, which a string never does for an integer. Hence there
  are inputs on which the client is found and no work item is selected, while matching by
  strings would select some.
\<close>

theorem id_matching_asymmetry:
  "(\<forall>c. find_column client_id_columns (columns (clients_df self)) = Some c \<longrightarrow>
        get_client_data E self cid =
          map_option (to_dict (columns (clients_df self)))
            (List.find (\<lambda>r. py_str E (cell_at (columns (clients_df self)) r c) = py_str E cid)
               (rows (clients_df self))))
   \<and> (\<forall>c. find_column works_id_columns (columns (works_df self)) = Some c \<longrightarrow>
        rows (get_client_works self cid) =
          filter (\<lambda>r. py_eq (cell_at (columns (works_df self)) r c) cid) (rows (works_df self)))
   \<and> py_str E (PInt n) = py_str E (PStr (str_int n))
   \<and> \<not> py_eq (PStr (str_int n)) (PInt n)
   \<and> (\<exists>E' g q c.
         get_client_data E' g q \<noteq> None
         \<and> find_column works_id_columns (columns (works_df g)) = Some c
         \<and> rows (get_client_works g q) = []
         \<and> filter (\<lambda>r. py_str E' (cell_at (columns (works_df g)) r c) = py_str E' q)
              (rows (works_df g)) \<noteq> [])"
proof (intro conjI allI impI)
  fix c
  assume "find_column client_id_columns (columns (clients_df self)) = Some c"
  then show "get_client_data E self cid =
          map_option (to_dict (columns (clients_df self)))
            (List.find (\<lambda>r. py_str E (cell_at (columns (clients_df self)) r c) = py_str E cid)
               (rows (clients_df self)))"
    by (rule get_client_data_find)
next
  fix c
  assume "find_column works_id_columns (columns (works_df self)) = Some c"
  then show "rows (get_client_works self cid) =
          filter (\<lambda>r. py_eq (cell_at (columns (works_df self)) r c) cid) (rows (works_df self))"
    by (simp add: get_client_works_def select_rows_def)
next
  show "py_str E (PInt n) = py_str E (PStr (str_int n))" by simp
next
  show "\<not> py_eq (PStr (str_int n)) (PInt n)" by simp
next
  have 1: "get_client_data demo_env demo_generator (PInt 1) \<noteq> None"
    by (simp add: get_client_data_def demo_clients_df client_id_columns_def select_rows_def
        cell_at_def to_dict_def Let_def str_int_1)
  have 2: "find_column works_id_columns (columns (works_df demo_generator)) = Some ''client_id''"
    by (simp add: demo_works_df works_id_columns_def)
  have 3: "rows (get_client_works demo_generator (PInt 1)) = []"
    by (simp add: get_client_works_def demo_works_df works_id_columns_def select_rows_def
        cell_at_def to_dict_def)
  have 4: "filter (\<lambda>r. py_str demo_env (cell_at (columns (works_df demo_generator)) r ''client_id'')
                         = py_str demo_env (PInt 1))
              (rows (works_df demo_generator)) \<noteq> []"
    by (simp add: demo_works_df cell_at_def to_dict_def str_int_1)
  from 1 2 3 4 show "\<exists>E' g q c.
         get_client_data E' g q \<noteq> None
         \<and> find_column works_id_columns (columns (works_df g)) = Some c
         \<and> rows (get_client_works g q) = []
         \<and> filter (\<lambda>r. py_str E' (cell_at (columns (works_df g)) r c) = py_str E' q)
              (rows (works_df g)) \<noteq> []"
    by blast
qed

text \<open>
  The theorem on the worked files, queried with the integer 1: the client \<^verbatim>\<open>1\<close> is
  found, none of its two work items is, and the string \<^verbatim>\<open>1\<close> finds both.
\<close>

theorem id_matching_asymmetry_witness:
  "get_client_data demo_env demo_generator (PInt 1)
     = Some (to_dict [''id'', ''name''] [PStr ''1'', PStr ''Acme''])
   \<and> rows (get_client_works demo_generator (PInt 1)) = []
   \<and> rows (get_client_works demo_generator (PStr ''1''))
       = [[PStr ''1'', PStr ''2024-01-15'', PFloat 100], [PStr ''1'', PStr ''2024-01-20'', PFloat 50]]
   \<and> filter (\<lambda>r. py_str demo_env (cell_at (columns (works_df demo_generator)) r ''client_id'')
                    = py_str demo_env (PInt 1))
        (rows (works_df demo_generator))
       = [[PStr ''1'', PStr ''2024-01-15'', PFloat 100], [PStr ''1'', PStr ''2024-01-20'', PFloat 50]]"
proof -
  have c: "find_column client_id_columns (columns (clients_df demo_generator)) = Some ''id''"
    by (simp add: demo_clients_df client_id_columns_def)
  have w: "find_column works_id_columns (columns (works_df demo_generator)) = Some ''client_id''"
    by (simp add: demo_works_df works_id_columns_def)
  from id_matching_asymmetry [of demo_generator demo_env "PInt 1" 1] c w
  have a: "get_client_data demo_env demo_generator (PInt 1) =
          map_option (to_dict (columns (clients_df demo_generator)))
            (List.find (\<lambda>r. py_str demo_env (cell_at (columns (clients_df demo_generator)) r ''id'')
                               = py_str demo_env (PInt 1))
               (rows (clients_df demo_generator)))"
    and b: "rows (get_client_works demo_generator (PInt 1)) =
          filter (\<lambda>r. py_eq (cell_at (columns (works_df demo_generator)) r ''client_id'') (PInt 1))
            (rows (works_df demo_generator))"
    by blast+
  from id_matching_asymmetry [of demo_generator demo_env "PStr ''1''" 1] w
  have d: "rows (get_client_works demo_generator (PStr ''1'')) =
          filter (\<lambda>r. py_eq (cell_at (columns (works_df demo_generator)) r ''client_id'') (PStr ''1''))
            (rows (works_df demo_generator))"
    by blast
  have a': "get_client_data demo_env demo_generator (PInt 1)
     = Some (to_dict [''id'', ''name''] [PStr ''1'', PStr ''Acme''])"
    unfolding a by (simp add: demo_clients_df cell_at_def to_dict_def str_int_1)
  have b': "rows (get_client_works demo_generator (PInt 1)) = []"
    unfolding b by (simp add: demo_works_df cell_at_def to_dict_def)
  have d': "rows (get_client_works demo_generator (PStr ''1''))
       = [[PStr ''1'', PStr ''2024-01-15'', PFloat 100], [PStr ''1'', PStr ''2024-01-20'', PFloat 50]]"
    unfolding d by (simp add: demo_works_df cell_at_def to_dict_def)
  have e: "filter (\<lambda>r. py_str demo_env (cell_at (columns (works_df demo_generator)) r ''client_id'')
                    = py_str demo_env (PInt 1))
        (rows (works_df demo_generator))
       = [[PStr ''1'', PStr ''2024-01-15'', PFloat 100], [PStr ''1'', PStr ''2024-01-20'', PFloat 50]]"
    by (simp add: demo_works_df cell_at_def to_dict_def str_int_1)
  from a' b' d' e show ?thesis by (intro conjI)
qed

section \<open>Loading\<close>

lemma load_absent:
  "csv_files E path = None \<Longrightarrow> load_clients_data E path = empty_df"
  "csv_files E path = None \<Longrightarrow> load_works_data E path = empty_df"
  by (simp_all add: load_clients_data_def load_works_data_def read_csv_def)

text \<open>
  Claim C6. For a path that names no file, both loaders return the empty table. A
  generator built on a missing clients file finds no client and returns \<^verbatim>\<open>None\<close> for
  every id; one built on a missing works file finds no work item for any id, and its
  \<^verbatim>\<open>generate_invoice\<close> returns \<^verbatim>\<open>None\<close> or an invoice with no line items and zero
  totals. No exception leaves any of them.
\<close>

theorem missing_file_degrades:
  "(csv_files E path = None \<longrightarrow>
      load_clients_data E path = empty_df \<and> load_works_data E path = empty_df)
   \<and> (csv_files E cpath = None \<longrightarrow>
        get_client_data E (init E cpath wpath rate) cid = None
        \<and> generate_invoice E (init E cpath wpath rate) cid number date = Inr None)
   \<and> (csv_files E wpath = None \<longrightarrow>
        get_client_works (init E cpath wpath rate) cid = empty_df
        \<and> (case get_client_data E (init E cpath wpath rate) cid of
              None \<Rightarrow> generate_invoice E (init E cpath wpath rate) cid number date = Inr None
            | Some cd \<Rightarrow>
                (\<exists>ivc. generate_invoice E (init E cpath wpath rate) cid number date = Inr (Some ivc)
                   \<and> client_data ivc = cd \<and> works ivc = []
                   \<and> inv_subtotal ivc = 0 \<and> tax_amount ivc = 0 \<and> total_amount ivc = 0)))"
proof (intro conjI impI)
  assume "csv_files E path = None"
  then show "load_clients_data E path = empty_df" "load_works_data E path = empty_df"
    by (simp_all add: load_absent)
next
  assume a: "csv_files E cpath = None"
  have "clients_df (init E cpath wpath rate) = empty_df"
    using a by (simp add: init_def load_absent)
  then show g: "get_client_data E (init E cpath wpath rate) cid = None"
    by (rule get_client_data_empty)
  then show "generate_invoice E (init E cpath wpath rate) cid number date = Inr None"
    by (simp add: generate_invoice_def)
next
  assume a: "csv_files E wpath = None"
  have "works_df (init E cpath wpath rate) = empty_df"
    using a by (simp add: init_def load_absent)
  then show w: "get_client_works (init E cpath wpath rate) cid = empty_df"
    by (rule get_client_works_empty)
  show "case get_client_data E (init E cpath wpath rate) cid of
              None \<Rightarrow> generate_invoice E (init E cpath wpath rate) cid number date = Inr None
            | Some cd \<Rightarrow>
                (\<exists>ivc. generate_invoice E (init E cpath wpath rate) cid number date = Inr (Some ivc)
                   \<and> client_data ivc = cd \<and> works ivc = []
                   \<and> inv_subtotal ivc = 0 \<and> tax_amount ivc = 0 \<and> total_amount ivc = 0)"
  proof (cases "get_client_data E (init E cpath wpath rate) cid")
    case None
    then show ?thesis by (simp add: generate_invoice_def)
  next
    case (Some cd)
    have "rows (get_client_works (init E cpath wpath rate) cid) = []"
      using w by (simp add: empty_df_def)
    then show ?thesis
      using Some
      by (simp add: generate_invoice_def totals_of_no_rows to_records_def Let_def)
  qed
qed

text \<open>The theorem on a path that is not among the worked files.\<close>

theorem missing_file_degrades_witness:
  "csv_files demo_env ''missing.csv'' = None
   \<and> load_clients_data demo_env ''missing.csv'' = empty_df
   \<and> load_works_data demo_env ''missing.csv'' = empty_df
   \<and> generate_invoice demo_env (init demo_env ''missing.csv'' ''works.csv'' (21 / 100))
        (PStr ''1'') None None = Inr None
   \<and> get_client_works (init demo_env ''clients.csv'' ''missing.csv'' (21 / 100)) (PStr ''1'')
       = empty_df
   \<and> (\<exists>ivc. generate_invoice demo_env (init demo_env ''clients.csv'' ''missing.csv'' (21 / 100))
               (PStr ''1'') None None = Inr (Some ivc)
             \<and> works ivc = [] \<and> inv_subtotal ivc = 0 \<and> tax_amount ivc = 0
             \<and> total_amount ivc = 0)"
proof -
  have h: "csv_files demo_env ''missing.csv'' = None"
    by (simp add: demo_env_def)
  have c: "get_client_data demo_env (init demo_env ''clients.csv'' ''missing.csv'' (21 / 100))
             (PStr ''1'') = Some (to_dict [''id'', ''name''] [PStr ''1'', PStr ''Acme''])"
    by (simp add: get_client_data_def init_def load_clients_data_def read_csv_def demo_env_def
        strip_plain client_id_columns_def select_rows_def cell_at_def to_dict_def Let_def)
  from missing_file_degrades
         [of demo_env "''missing.csv''" "''missing.csv''" "''works.csv''" "21 / 100"
             "PStr ''1''" None None] h
  have a: "load_clients_data demo_env ''missing.csv'' = empty_df
           \<and> load_works_data demo_env ''missing.csv'' = empty_df
           \<and> generate_invoice demo_env (init demo_env ''missing.csv'' ''works.csv'' (21 / 100))
                (PStr ''1'') None None = Inr None"
    by blast
  from missing_file_degrades
         [of demo_env "''missing.csv''" "''clients.csv''" "''missing.csv''" "21 / 100"
             "PStr ''1''" None None] h
  have b: "get_client_works (init demo_env ''clients.csv'' ''missing.csv'' (21 / 100)) (PStr ''1'')
             = empty_df
           \<and> (case get_client_data demo_env
                      (init demo_env ''clients.csv'' ''missing.csv'' (21 / 100)) (PStr ''1'') of
                 None \<Rightarrow> generate_invoice demo_env
                           (init demo_env ''clients.csv'' ''missing.csv'' (21 / 100))
                           (PStr ''1'') None None = Inr None
               | Some cd \<Rightarrow>
                   (\<exists>ivc. generate_invoice demo_env
                             (init demo_env ''clients.csv'' ''missing.csv'' (21 / 100))
                             (PStr ''1'') None None = Inr (Some ivc)
                      \<and> client_data ivc = cd \<and> works ivc = []
                      \<and> inv_subtotal ivc = 0 \<and> tax_amount ivc = 0 \<and> total_amount ivc = 0))"
    by blast
  from b c have "\<exists>ivc. generate_invoice demo_env
                             (init demo_env ''clients.csv'' ''missing.csv'' (21 / 100))
                             (PStr ''1'') None None = Inr (Some ivc)
                      \<and> works ivc = []
                      \<and> inv_subtotal ivc = 0 \<and> tax_amount ivc = 0 \<and> total_amount ivc = 0"
    by auto
  with a b h show ?thesis by blast
qed

lemma load_works_data_no_date_column:
  assumes "csv_files E path = Some (Inr df)"
    and "''date'' \<notin> set (map lower (map strip (columns df)))"
  shows "load_works_data E path = df\<lparr>columns := map strip (columns df)\<rparr>"
  using assms by (simp add: load_works_data_def read_csv_def Let_def image_image)

text \<open>
  Claim C7 does not hold of the source. The guard of \<^verbatim>\<open>load_works_data\<close> asks for a
  column whose lower-cased name is \<^verbatim>\<open>date\<close> itself, so a table whose only date-like
  column is \<^verbatim>\<open>work_date\<close> is returned with its dates unparsed: the table of
  \<^verbatim>\<open>works.csv\<close> comes back with strings in that column, although the name contains
  \<^verbatim>\<open>date\<close> and the parser would have made timestamps of them. The same dates under a
  column named \<^verbatim>\<open>date\<close>, as in \<^verbatim>\<open>dated.csv\<close>, are parsed.
\<close>

theorem load_works_data_work_date_unparsed:
  "load_works_data demo_env ''works.csv'' =
     \<lparr>columns = [''client_id'', ''work_date'', ''amount''],
      rows = [[PStr ''1'', PStr ''2024-01-15'', PFloat 100],
              [PStr ''1'', PStr ''2024-01-20'', PFloat 50],
              [PStr ''A2'', PStr ''2024-01-18'', PFloat (3014 / 1000)]]\<rparr>
   \<and> substring_of ''date'' (lower ''work_date'')
   \<and> to_datetime demo_env [PStr ''2024-01-15'', PStr ''2024-01-20'', PStr ''2024-01-18'']
       = Some [PTimestamp ''2024-01-15'', PTimestamp ''2024-01-20'', PTimestamp ''2024-01-18'']
   \<and> load_works_data demo_env ''dated.csv'' =
       \<lparr>columns = [''client_id'', ''date'', ''amount''],
        rows = [[PInt 1, PTimestamp ''2024-01-15'', PFloat 100]]\<rparr>"
proof -
  have 1: "load_works_data demo_env ''works.csv'' =
     \<lparr>columns = [''client_id'', ''work_date'', ''amount''],
      rows = [[PStr ''1'', PStr ''2024-01-15'', PFloat 100],
              [PStr ''1'', PStr ''2024-01-20'', PFloat 50],
              [PStr ''A2'', PStr ''2024-01-18'', PFloat (3014 / 1000)]]\<rparr>"
    by (simp add: load_works_data_def read_csv_def demo_env_def strip_plain lower_plain Let_def)
  have 2: "substring_of ''date'' (lower ''work_date'')"
    by (simp add: lower_plain)
  have 3: "to_datetime demo_env [PStr ''2024-01-15'', PStr ''2024-01-20'', PStr ''2024-01-18'']
       = Some [PTimestamp ''2024-01-15'', PTimestamp ''2024-01-20'', PTimestamp ''2024-01-18'']"
    by (simp add: demo_env_def)
  have 4: "load_works_data demo_env ''dated.csv'' =
       \<lparr>columns = [''client_id'', ''date'', ''amount''],
        rows = [[PInt 1, PTimestamp ''2024-01-15'', PFloat 100]]\<rparr>"
    by (simp add: load_works_data_def read_csv_def demo_env_def strip_plain lower_plain Let_def
        set_column_def column_def cell_at_def to_dict_def)
  from 1 2 3 4 show ?thesis by (intro conjI)
qed

section \<open>The renderers\<close>

text \<open>
  Claim C10. Given no invoice, each of the three renderers prints its one-line notice and
  returns: no exception leaves it, and no file is created or written.
\<close>

theorem renderers_accept_None:
  "print_invoice E self None w = (w\<lparr>stdout := stdout w @ [''No invoice to print'']\<rparr>, None)
   \<and> save_invoice_to_file E self None filename w = w\<lparr>stdout := stdout w @ [''No invoice to save'']\<rparr>
   \<and> save_invoice_to_pdf E self None filename w = w\<lparr>stdout := stdout w @ [''No invoice to save'']\<rparr>
   \<and> files (fst (print_invoice E self None w)) = files w
   \<and> files (save_invoice_to_file E self None filename w) = files w
   \<and> files (save_invoice_to_pdf E self None filename w) = files w"
  by (simp add: print_invoice_def save_invoice_to_file_def save_invoice_to_pdf_def print_def)

text \<open>
  The text of an invoice depends on the library only through the printed form of floats
  and the format of timestamps.
\<close>

lemma py_str_cong:
  assumes "float_str E' = float_str E"
  shows "py_str E' = py_str E"
proof
  fix v
  show "py_str E' v = py_str E v"
    using assms by (cases v) simp_all
qed

lemma format_cell_cong:
  assumes "timestamp_format E' = timestamp_format E"
  shows "format_cell E' pad spec nd = format_cell E pad spec nd"
proof
  fix v
  show "format_cell E' pad spec nd v = format_cell E pad spec nd v"
    using assms by (cases v) simp_all
qed

lemma work_line_cong:
  assumes "float_str E' = float_str E" and "timestamp_format E' = timestamp_format E"
  shows "work_line E' work = work_line E work"
  unfolding work_line_def py_str_cong [OF assms(1)] format_cell_cong [OF assms(2)] ..

lemma work_lines_cong:
  assumes "float_str E' = float_str E" and "timestamp_format E' = timestamp_format E"
  shows "work_lines E' ws = work_lines E ws"
proof (induction ws)
  case Nil
  show ?case by simp
next
  case (Cons work ws)
  show ?case
    unfolding work_lines.simps work_line_cong [OF assms] Cons.IH ..
qed

lemma invoice_text_cong:
  assumes "float_str E' = float_str E" and "timestamp_format E' = timestamp_format E"
  shows "invoice_text E' ivc = invoice_text E ivc"
  unfolding invoice_text_def client_lines_def py_str_cong [OF assms(1)]
    work_lines_cong [OF assms] assms(1) ..

lemma print_invoice_cong:
  assumes "float_str E' = float_str E" and "timestamp_format E' = timestamp_format E"
  shows "print_invoice E' self ivo w = print_invoice E self' ivo w"
  unfolding print_invoice_def invoice_text_cong [OF assms] ..

text \<open>
  Claim C9. What \<^verbatim>\<open>print_invoice\<close> prints, and how it ends, depends on the invoice
  alone: there is one text that it appends to the console whatever the generator and
  the world it runs in, and whatever the clock, the files, the date parser and the
  exception messages of the library, so that rendering the same invoice twice prints that
  text twice.
\<close>

theorem print_invoice_deterministic:
  "\<exists>text r.
     (\<forall>self w. print_invoice E self ivo w = (w\<lparr>stdout := stdout w @ text\<rparr>, r))
     \<and> (\<forall>self w e t f a b.
           print_invoice
             (E\<lparr>error_str := e, to_datetime := t, csv_files := f, now_compact := a, now_iso := b\<rparr>)
             self ivo w
           = (w\<lparr>stdout := stdout w @ text\<rparr>, r))
     \<and> (\<forall>self1 self2 w.
           stdout (fst (print_invoice E self2 ivo (fst (print_invoice E self1 ivo w))))
           = stdout w @ text @ text)"
proof -
  obtain ls r where t: "(case ivo of None \<Rightarrow> ([''No invoice to print''], None)
                         | Some i \<Rightarrow> invoice_text E i) = (ls, r)"
    by (cases "case ivo of None \<Rightarrow> ([''No invoice to print''], None) | Some i \<Rightarrow> invoice_text E i")
  have p: "print_invoice E self ivo w = (w\<lparr>stdout := stdout w @ ls\<rparr>, r)" for self w
    using t by (cases ivo) (simp_all add: print_invoice_def print_def)
  have q: "print_invoice
             (E\<lparr>error_str := e, to_datetime := t, csv_files := f, now_compact := a, now_iso := b\<rparr>)
             self ivo w
           = (w\<lparr>stdout := stdout w @ ls\<rparr>, r)" for self w e t f a b
    using p [of self w]
      print_invoice_cong
        [of "E\<lparr>error_str := e, to_datetime := t, csv_files := f, now_compact := a, now_iso := b\<rparr>"
            E self ivo w self]
    by simp
  have d: "stdout (fst (print_invoice E self2 ivo (fst (print_invoice E self1 ivo w))))
           = stdout w @ ls @ ls" for self1 self2 w
    by (simp add: p)
  from p q d show ?thesis by blast
qed

end
